theory Spec2Isabelle
  imports Main "HOL-Library.Word"
begin

unbundle bit_operations_syntax

section \<open>Common data\<close>

text \<open>
  The exceptions raised by the modelled functions. Only the exception class is kept;
  the message text (built from an address, a device id or a \<open>GError\<close>) is dropped.
\<close>

datatype exn =
    NotFoundException
  | IOException
  | InvalidAccessException
  | IllegalStateException
  | ExistsException

text \<open>
  \<open>Poco::Timestamp\<close> and \<open>Poco::Timespan\<close> count microseconds in a signed 64-bit
  integer. Clock values stay far from the 64-bit bounds, so both are unbounded integers
  here. \<open>elapsed now ts\<close> is \<open>ts.elapsed()\<close> evaluated when the clock shows \<open>now\<close>.
\<close>

type_synonym Timestamp = int
type_synonym Timespan = int

definition elapsed :: "Timestamp \<Rightarrow> Timestamp \<Rightarrow> int" where
  "elapsed now ts = now - ts"

type_synonym MACAddress = "48 word"

section \<open>The BLE adapter: DBusHciInterface\<close>

subsection \<open>Data model\<close>

text \<open>
  The remote D-Bus proxy \<open>OrgBluezDevice1\<close>: the properties the adapter reads from it.
  \<open>prop_name\<close> is \<open>None\<close> where \<open>org_bluez_device1_get_name\<close> returns a null pointer.
\<close>

record OrgBluezDevice1 =
  prop_address :: MACAddress
  prop_name :: "string option"
  prop_rssi :: "16 word"
  prop_connected :: bool

text \<open>
  Modelled from the spec: the class \<open>DBusHciInterface::Device\<close> is declared in a header
  that is not among the sources. The spec gives the record as
  \<open>{ mac, bluez_handle, rssi_subscription, manufacturer_watch: optional callback,
  last_seen: timestamp, rssi: int16 }\<close>, and a record is watched when
  \<open>manufacturer_watch\<close> is present. The watch subscription holds the signal handle
  together with the callback, as \<open>watch(handle, callBack)\<close> receives both.
\<close>

record 'cb Device =
  m_device :: OrgBluezDevice1
  m_rssiHandle :: "64 word"
  m_watch :: "(64 word \<times> 'cb) option"
  m_lastSeen :: Timestamp

definition macAddress :: "'cb Device \<Rightarrow> MACAddress" where
  "macAddress d = prop_address (m_device d)"

definition name :: "'cb Device \<Rightarrow> string" where
  "name d = (case prop_name (m_device d) of None \<Rightarrow> ''unknown'' | Some n \<Rightarrow> n)"

definition rssi :: "'cb Device \<Rightarrow> 16 word" where
  "rssi d = prop_rssi (m_device d)"

definition isWatched :: "'cb Device \<Rightarrow> bool" where
  "isWatched d = (m_watch d \<noteq> None)"

definition watchDevice :: "64 word \<Rightarrow> 'cb \<Rightarrow> 'cb Device \<Rightarrow> 'cb Device" where
  "watchDevice handle callBack d = d\<lparr>m_watch := Some (handle, callBack)\<rparr>"

text \<open>
  \<open>watchHandle\<close> is read only on a watched record; on another one it is taken as 0.
\<close>

definition watchHandle :: "'cb Device \<Rightarrow> 64 word" where
  "watchHandle d = (case m_watch d of None \<Rightarrow> 0 | Some (handle, _) \<Rightarrow> handle)"

definition unwatchDevice :: "'cb Device \<Rightarrow> 'cb Device" where
  "unwatchDevice d = d\<lparr>m_watch := None\<rparr>"

definition updateLastSeen :: "Timestamp \<Rightarrow> 'cb Device \<Rightarrow> 'cb Device" where
  "updateLastSeen now d = d\<lparr>m_lastSeen := now\<rparr>"

text \<open>
  \<open>m_devices\<close> is a \<open>std::map<MACAddress, Device>\<close>: an association list in iteration
  order. A \<open>std::map\<close> holds each key once, in increasing order; \<open>map_ok\<close> states it.
  \<open>find\<close> is \<open>map_of\<close>; \<open>modify\<close> is an assignment through the iterator returned by
  \<open>find\<close>; \<open>emplace\<close> inserts a new key at its place in the order and leaves the map
  as it is when the key is present, returning whether it inserted.
  \<open>m_seenClassicDevices\<close> is only searched and updated at one key, so it is a partial
  function.
\<close>

definition map_ok :: "('k::linorder \<times> 'v) list \<Rightarrow> bool" where
  "map_ok xs = sorted_wrt (<) (map fst xs)"

fun modify :: "'k \<Rightarrow> ('v \<Rightarrow> 'v) \<Rightarrow> ('k \<times> 'v) list \<Rightarrow> ('k \<times> 'v) list" where
  "modify k f [] = []"
| "modify k f ((k', v) # xs) =
     (if k' = k then (k', f v) # xs else (k', v) # modify k f xs)"

definition emplace :: "'k::linorder \<Rightarrow> 'v \<Rightarrow> ('k \<times> 'v) list \<Rightarrow> ('k \<times> 'v) list \<times> bool" where
  "emplace k v xs =
     (case map_of xs k of
        Some _ \<Rightarrow> (xs, False)
      | None \<Rightarrow> (takeWhile (\<lambda>(k', _). k' < k) xs @ (k, v) # dropWhile (\<lambda>(k', _). k' < k) xs, True))"

record 'cb DBusHciInterface =
  m_name :: string
  m_devices :: "(MACAddress \<times> 'cb Device) list"
  m_seenClassicDevices :: "MACAddress \<rightharpoonup> Timestamp"
  m_leMaxAgeRssi :: Timespan
  m_leMaxUnavailabilityTime :: Timespan
  m_classicArtificialAvaibilityTimeout :: Timespan

text \<open>The calls to GLib and BlueZ that the eviction and \<open>unwatch\<close> make.\<close>

datatype BusCall =
    SignalHandlerDisconnect OrgBluezDevice1 "64 word"
  | RemoveDeviceSync string

record GError =
  code :: "32 word"
  message :: string

definition GERROR_IN_PROGRESS :: "32 word" where
  "GERROR_IN_PROGRESS = 36"

definition RSSI_DEVICE_UNAVAILABLE :: "16 word" where
  "RSSI_DEVICE_UNAVAILABLE = 0"

definition throwErrorIfAny :: "GError option \<Rightarrow> exn + unit" where
  "throwErrorIfAny error =
     (case error of
        None \<Rightarrow> Inr ()
      | Some e \<Rightarrow> if code e = GERROR_IN_PROGRESS then Inr () else Inl IOException)"

subsection \<open>connect\<close>

text \<open>
  The handle built by \<open>new DBusHciConnection(m_name, device, timeout)\<close>.
  \<open>reply\<close> is the error slot filled by \<open>org_bluez_device1_call_connect_sync\<close>,
  which is called only when the proxy does not report the device as connected.
\<close>

record DBusHciConnection =
  conn_name :: string
  conn_device :: OrgBluezDevice1
  conn_timeout :: Timespan

definition connect ::
  "GError option \<Rightarrow> MACAddress \<Rightarrow> Timespan \<Rightarrow> 'cb DBusHciInterface \<Rightarrow> exn + DBusHciConnection"
where
  "connect reply address timeout s =
     (case map_of (m_devices s) address of
        None \<Rightarrow> Inl NotFoundException
      | Some d \<Rightarrow>
          let device = m_device d;
              handle = \<lparr>conn_name = m_name s, conn_device = device, conn_timeout = timeout\<rparr>
          in if \<not> prop_connected device then
               (case throwErrorIfAny reply of
                  Inl e \<Rightarrow> Inl e
                | Inr _ \<Rightarrow> Inr handle)
             else Inr handle)"

subsection \<open>detect\<close>

text \<open>
  \<open>status\<close> is the result of the synchronous inquiry \<open>BluezHciInterface::detect\<close>, and
  \<open>now\<close> the clock value of the one clock reading the call makes (\<open>Timestamp()\<close>,
  \<open>update()\<close> or \<open>elapsed()\<close>, depending on the branch).
\<close>

definition detect ::
  "bool \<Rightarrow> Timestamp \<Rightarrow> MACAddress \<Rightarrow> 'cb DBusHciInterface \<Rightarrow> bool \<times> 'cb DBusHciInterface"
where
  "detect status now address s =
     (case m_seenClassicDevices s address of
        None \<Rightarrow>
          (status,
           if status then s\<lparr>m_seenClassicDevices := (m_seenClassicDevices s)(address \<mapsto> now)\<rparr>
           else s)
      | Some seen \<Rightarrow>
          if status then
            (status, s\<lparr>m_seenClassicDevices := (m_seenClassicDevices s)(address \<mapsto> now)\<rparr>)
          else if elapsed now seen \<le> m_classicArtificialAvaibilityTimeout s then (True, s)
          else (status, s))"

text \<open>
  A history of \<open>detect\<close> calls, each with its clock value, its address and the result of
  its inquiry; \<open>detect_all\<close> runs them in order and \<open>last_detected\<close> is the clock value of
  the last call of the history whose inquiry found the address.
\<close>

type_synonym DetectCall = "Timestamp \<times> MACAddress \<times> bool"

fun detect_all :: "DetectCall list \<Rightarrow> 'cb DBusHciInterface \<Rightarrow> 'cb DBusHciInterface" where
  "detect_all [] s = s"
| "detect_all ((now, address, status) # calls) s =
     detect_all calls (snd (detect status now address s))"

fun last_detected :: "DetectCall list \<Rightarrow> MACAddress \<Rightarrow> Timestamp option \<Rightarrow> Timestamp option" where
  "last_detected [] address seen = seen"
| "last_detected ((now, a, status) # calls) address seen =
     last_detected calls address (if a = address \<and> status then Some now else seen)"

subsection \<open>lescan and removeUnvailableDevices\<close>

text \<open>
  The replies of the adapter proxy that \<open>startDiscovery\<close> reads: the \<open>Discovering\<close>
  property and the error slots of the two synchronous calls.
\<close>

record AdapterReplies =
  get_discovering :: bool
  set_discovery_filter_error :: "GError option"
  start_discovery_error :: "GError option"

definition initDiscoveryFilter :: "AdapterReplies \<Rightarrow> exn + unit" where
  "initDiscoveryFilter replies = throwErrorIfAny (set_discovery_filter_error replies)"

definition startDiscovery :: "AdapterReplies \<Rightarrow> exn + unit" where
  "startDiscovery replies =
     (if get_discovering replies then Inr ()
      else case initDiscoveryFilter replies of
             Inl e \<Rightarrow> Inl e
           | Inr _ \<Rightarrow> throwErrorIfAny (start_discovery_error replies))"

text \<open>
  \<open>MACAddress::toString\<close> is not among the sources; \<open>toString\<close> stands for it.
\<close>

definition createDevicePath ::
  "(MACAddress \<Rightarrow> char \<Rightarrow> string) \<Rightarrow> string \<Rightarrow> MACAddress \<Rightarrow> string"
where
  "createDevicePath toString nm address =
     ''/org/bluez/'' @ nm @ ''/dev_'' @ toString address CHR ''_''"

text \<open>
  The loop of \<open>lescan\<close> over \<open>m_devices\<close>. Each pass over the map reads the clock once
  for every record it examines; the readings of one pass are the single value \<open>now\<close>.
\<close>

fun lescan_loop ::
  "Timestamp \<Rightarrow> Timespan \<Rightarrow> (MACAddress \<times> 'cb Device) list \<Rightarrow>
   (MACAddress \<times> string) list \<Rightarrow> (MACAddress \<times> string) list"
where
  "lescan_loop now maxAge [] foundDevices = foundDevices"
| "lescan_loop now maxAge ((first, second) # rest) foundDevices =
     (if elapsed now (m_lastSeen second) > maxAge then lescan_loop now maxAge rest foundDevices
      else if rssi second = RSSI_DEVICE_UNAVAILABLE then lescan_loop now maxAge rest foundDevices
      else lescan_loop now maxAge rest (fst (emplace first (name second) foundDevices)))"

text \<open>
  The loop of \<open>removeUnvailableDevices\<close>: the records kept, in order, and the calls made
  for the erased ones.
\<close>

fun removeUnvailableDevices_loop ::
  "(MACAddress \<Rightarrow> char \<Rightarrow> string) \<Rightarrow> string \<Rightarrow> Timestamp \<Rightarrow> Timespan \<Rightarrow>
   (MACAddress \<times> 'cb Device) list \<Rightarrow> (MACAddress \<times> 'cb Device) list \<times> BusCall list"
where
  "removeUnvailableDevices_loop toString nm now maxUnavailability [] = ([], [])"
| "removeUnvailableDevices_loop toString nm now maxUnavailability ((first, second) # rest) =
     (let (kept, calls) = removeUnvailableDevices_loop toString nm now maxUnavailability rest
      in if isWatched second then ((first, second) # kept, calls)
         else if elapsed now (m_lastSeen second) > maxUnavailability then
           (kept,
            SignalHandlerDisconnect (m_device second) (m_rssiHandle second) #
            RemoveDeviceSync (createDevicePath toString nm (macAddress second)) # calls)
         else ((first, second) # kept, calls))"

definition removeUnvailableDevices ::
  "(MACAddress \<Rightarrow> char \<Rightarrow> string) \<Rightarrow> Timestamp \<Rightarrow> 'cb DBusHciInterface \<Rightarrow>
   'cb DBusHciInterface \<times> BusCall list"
where
  "removeUnvailableDevices toString now s =
     (let (kept, calls) =
        removeUnvailableDevices_loop toString (m_name s) now (m_leMaxUnavailabilityTime s)
          (m_devices s)
      in (s\<lparr>m_devices := kept\<rparr>, calls))"

text \<open>
  \<open>lescan\<close>: \<open>scanTime\<close> is the clock value of the pass that collects the found devices
  (after the wait on the reset condition, whose only parameter is the timeout of the
  scan), \<open>evictTime\<close> that of the eviction pass.
  The result is the found devices, the adapter after the eviction and the calls
  the eviction made.
\<close>

definition lescan ::
  "(MACAddress \<Rightarrow> char \<Rightarrow> string) \<Rightarrow> AdapterReplies \<Rightarrow> Timestamp \<Rightarrow> Timestamp \<Rightarrow>
   'cb DBusHciInterface \<Rightarrow>
   exn + ((MACAddress \<times> string) list \<times> 'cb DBusHciInterface \<times> BusCall list)"
where
  "lescan toString replies scanTime evictTime s =
     (case startDiscovery replies of
        Inl e \<Rightarrow> Inl e
      | Inr _ \<Rightarrow>
          let foundDevices = lescan_loop scanTime (m_leMaxAgeRssi s) (m_devices s) [];
              (s', calls) = removeUnvailableDevices toString evictTime s
          in Inr (foundDevices, s', calls))"

text \<open>
  \<open>onDeviceRSSIChanged\<close>: \<open>properties\<close> are the names of the changed properties.
\<close>

definition onDeviceRSSIChanged ::
  "OrgBluezDevice1 \<Rightarrow> string list \<Rightarrow> Timestamp \<Rightarrow>
   (MACAddress \<times> 'cb Device) list \<Rightarrow> (MACAddress \<times> 'cb Device) list"
where
  "onDeviceRSSIChanged device properties now devices =
     (if ''RSSI'' \<in> set properties
      then modify (prop_address device) (updateLastSeen now) devices
      else devices)"

subsection \<open>watch and unwatch\<close>

text \<open>
  \<open>handle\<close> is the value \<open>g_signal_connect\<close> returns when \<open>watch\<close> reaches that call.
\<close>

definition watch ::
  "64 word \<Rightarrow> MACAddress \<Rightarrow> 'cb \<Rightarrow> 'cb DBusHciInterface \<Rightarrow>
   (exn + unit) \<times> 'cb DBusHciInterface"
where
  "watch handle address callBack s =
     (case map_of (m_devices s) address of
        None \<Rightarrow> (Inl NotFoundException, s)
      | Some d \<Rightarrow>
          if isWatched d then (Inr (), s)
          else if handle = 0 then (Inl IOException, s)
          else (Inr (),
                s\<lparr>m_devices := modify address (watchDevice handle callBack) (m_devices s)\<rparr>))"

definition unwatch ::
  "MACAddress \<Rightarrow> 'cb DBusHciInterface \<Rightarrow> 'cb DBusHciInterface \<times> BusCall list"
where
  "unwatch address s =
     (case map_of (m_devices s) address of
        None \<Rightarrow> (s, [])
      | Some d \<Rightarrow>
          if \<not> isWatched d then (s, [])
          else
            let handle = watchHandle d
            in (s\<lparr>m_devices := modify address unwatchDevice (m_devices s)\<rparr>,
                [SignalHandlerDisconnect (m_device d) handle]))"

subsection \<open>An example adapter\<close>

text \<open>
  The units of \<open>Poco::Timespan\<close>, a rendering of addresses as separated upper-case
  hexadecimal bytes (\<open>hexString\<close>, in the place of \<open>toString\<close>), and an adapter \<open>hci0\<close> with the default time limits of
  \<open>DBusHciInterfaceManager\<close> (30 seconds, 7 days, 30 seconds) and three devices: one seen
  at second 29, one watched and seen at second 0, one seen at second 35 whose RSSI is 0.
\<close>

definition SECONDS :: Timespan where
  "SECONDS = 1000000"

definition DAYS :: Timespan where
  "DAYS = 86400 * SECONDS"

definition hexDigit :: "nat \<Rightarrow> char" where
  "hexDigit n = ''0123456789ABCDEF'' ! n"

definition hexByte :: "8 word \<Rightarrow> string" where
  "hexByte b = [hexDigit (unat b div 16), hexDigit (unat b mod 16)]"

fun joinWith :: "char \<Rightarrow> string list \<Rightarrow> string" where
  "joinWith sep [] = []"
| "joinWith sep [x] = x"
| "joinWith sep (x # y # zs) = x @ sep # joinWith sep (y # zs)"

definition hexString :: "MACAddress \<Rightarrow> char \<Rightarrow> string" where
  "hexString a sep =
     joinWith sep (map (\<lambda>i. hexByte (ucast (drop_bit (8 * i) a))) [5, 4, 3, 2, 1, 0])"

definition example_device ::
  "MACAddress \<Rightarrow> 16 word \<Rightarrow> 64 word \<Rightarrow> (64 word \<times> nat) option \<Rightarrow> Timestamp \<Rightarrow> nat Device" where
  "example_device a r h w t =
     \<lparr>m_device = \<lparr>prop_address = a, prop_name = None, prop_rssi = r, prop_connected = False\<rparr>,
      m_rssiHandle = h, m_watch = w, m_lastSeen = t\<rparr>"

definition example_hci :: "nat DBusHciInterface" where
  "example_hci =
     \<lparr>m_name = ''hci0'',
      m_devices =
        [(0xAABBCCDDEE01, example_device 0xAABBCCDDEE01 0xFFC4 11 None (29 * SECONDS)),
         (0xAABBCCDDEE02, example_device 0xAABBCCDDEE02 0xFFC4 12 (Some (7, 1)) 0),
         (0xAABBCCDDEE03, example_device 0xAABBCCDDEE03 0 13 None (35 * SECONDS))],
      m_seenClassicDevices = Map.empty,
      m_leMaxAgeRssi = 30 * SECONDS,
      m_leMaxUnavailabilityTime = 7 * DAYS,
      m_classicArtificialAvaibilityTimeout = 30 * SECONDS\<rparr>"

definition example_replies :: AdapterReplies where
  "example_replies =
     \<lparr>get_discovering = False, set_discovery_filter_error = None,
      start_discovery_error = Some \<lparr>code = 36, message = ''in progress''\<rparr>\<rparr>"

section \<open>The virtual device manager: VirtualDeviceManager\<close>

subsection \<open>Data model\<close>

text \<open>
  Modelled from the spec: the class \<open>DeviceID\<close> is not among the sources. The spec gives
  it as a 64-bit identifier with a 1-byte prefix (the driver family) and a 7-byte
  identifier, equal when all 64 bits are. The prefix is the most significant byte.
\<close>

type_synonym DeviceID = "64 word"
type_synonym DevicePrefix = "8 word"

definition DeviceID_make :: "DevicePrefix \<Rightarrow> 64 word \<Rightarrow> DeviceID" where
  "DeviceID_make p i = push_bit 56 (ucast p) OR take_bit 56 i"

definition DeviceID_prefix :: "DeviceID \<Rightarrow> DevicePrefix" where
  "DeviceID_prefix d = ucast (drop_bit 56 d)"

definition DeviceID_ident :: "DeviceID \<Rightarrow> 64 word" where
  "DeviceID_ident d = take_bit 56 d"

text \<open>
  Modelled from the spec: \<open>VirtualModule\<close> and \<open>VirtualDevice\<close> are not among the
  sources. Of a module the manager reads its id and its reaction, of which the source
  names \<open>REACTION_NONE\<close>; the module type \<open>'mt\<close> is opaque. A device has the id, refresh
  time (the seconds handed to \<open>RefreshTime::fromSeconds\<close>), vendor, product and modules
  that \<open>parseDevice\<close> sets.
\<close>

datatype Reaction = REACTION_SUCCESS | REACTION_FAILURE | REACTION_NONE

record 'mt VirtualModule =
  moduleID :: nat
  moduleType :: 'mt
  reaction :: Reaction

record 'mt VirtualDevice =
  vd_id :: DeviceID
  vd_refresh :: "32 word"
  vd_vendorName :: string
  vd_productName :: string
  vd_modules :: "'mt VirtualModule list"

text \<open>
  Modelled from the spec: \<open>DeviceCache\<close> and \<open>PollingKeeper\<close> are not among the sources.
  The cache is the external collaborator that holds the pairing state: the set of the
  ids marked paired. The polling keeper holds the schedule: the set of the ids of the
  devices scheduled for polling, where \<open>schedule\<close> takes the device and \<open>cancel\<close> its id.
\<close>

type_synonym DeviceCache = "DeviceID set"
type_synonym PollingKeeper = "DeviceID set"

definition markPaired :: "DeviceID \<Rightarrow> DeviceCache \<Rightarrow> DeviceCache" where
  "markPaired d cache = insert d cache"

definition markUnpaired :: "DeviceID \<Rightarrow> DeviceCache \<Rightarrow> DeviceCache" where
  "markUnpaired d cache = cache - {d}"

definition paired :: "DeviceID \<Rightarrow> DeviceCache \<Rightarrow> bool" where
  "paired d cache = (d \<in> cache)"

definition schedule :: "'mt VirtualDevice \<Rightarrow> PollingKeeper \<Rightarrow> PollingKeeper" where
  "schedule device keeper = insert (vd_id device) keeper"

definition cancel :: "DeviceID \<Rightarrow> PollingKeeper \<Rightarrow> PollingKeeper" where
  "cancel d keeper = keeper - {d}"

record 'mt VirtualDeviceManager =
  m_virtualDevicesMap :: "(DeviceID \<times> 'mt VirtualDevice) list"
  deviceCache :: DeviceCache
  m_pollingKeeper :: PollingKeeper

text \<open>
  Every device is stored under its own id (\<open>registerDevice\<close> is the only writer of the
  map and emplaces \<open>device->id()\<close>).
\<close>

definition keyed_by_id :: "(DeviceID \<times> 'mt VirtualDevice) list \<Rightarrow> bool" where
  "keyed_by_id devices = list_all (\<lambda>(k, device). vd_id device = k) devices"

subsection \<open>Loading the configuration\<close>

text \<open>
  One \<open>virtual-deviceN\<close> section of the configuration file. A field is \<open>None\<close> when its key
  is absent: \<open>getString\<close> without a default then raises \<open>NotFoundException\<close>, the other
  getters return their default. \<open>cfg_modules\<close> are the consecutive \<open>moduleN\<close> views that
  have a type, of an opaque type \<open>'mc\<close>.
\<close>

record 'mc DeviceCfg =
  cfg_device_id :: "string option"
  cfg_refresh :: "32 word option"
  cfg_paired :: "bool option"
  cfg_vendor :: "string option"
  cfg_product :: "string option"
  cfg_modules :: "'mc list"

definition DEFAULT_REFRESH_SECS :: "32 word" where
  "DEFAULT_REFRESH_SECS = 30"

text \<open>
  The loop of \<open>parseDevice\<close> over the modules: it stops at the first module whose parsing
  raises. \<open>parseModule\<close> stands for the function of that name, whose parts
  (\<open>ModuleType::parse\<close>, the setters of \<open>VirtualModule\<close>) are not among the sources.
\<close>

fun parseModules ::
  "('mc \<Rightarrow> nat \<Rightarrow> exn + 'mt VirtualModule) \<Rightarrow> 'mc list \<Rightarrow> nat \<Rightarrow> 'mt VirtualModule list"
where
  "parseModules parseModule [] i = []"
| "parseModules parseModule (view # views) i =
     (case parseModule view i of
        Inl e \<Rightarrow> []
      | Inr m \<Rightarrow> m # parseModules parseModule views (Suc i))"

text \<open>
  \<open>parseDevice\<close>. \<open>PREFIX_VIRTUAL_DEVICE\<close> is the constant of that name and \<open>parse\<close> is
  \<open>DeviceID::parse\<close>, both outside the sources. The result is the device or the exception
  raised, and the manager with the cache as written until then.
\<close>

definition parseDevice ::
  "DevicePrefix \<Rightarrow> (string \<Rightarrow> exn + DeviceID) \<Rightarrow> ('mc \<Rightarrow> nat \<Rightarrow> exn + 'mt VirtualModule) \<Rightarrow>
   'mc DeviceCfg \<Rightarrow> 'mt VirtualDeviceManager \<Rightarrow>
   (exn + 'mt VirtualDevice) \<times> 'mt VirtualDeviceManager"
where
  "parseDevice PREFIX_VIRTUAL_DEVICE parse parseModule cfg s =
     (case cfg_device_id cfg of
        None \<Rightarrow> (Inl NotFoundException, s)
      | Some str \<Rightarrow>
         (case parse str of
            Inl e \<Rightarrow> (Inl e, s)
          | Inr d \<Rightarrow>
             let device_id =
                   (if DeviceID_prefix d \<noteq> PREFIX_VIRTUAL_DEVICE
                    then DeviceID_make PREFIX_VIRTUAL_DEVICE (DeviceID_ident d)
                    else d);
                 refresh = (case cfg_refresh cfg of None \<Rightarrow> DEFAULT_REFRESH_SECS | Some r \<Rightarrow> r);
                 s' = (if (case cfg_paired cfg of None \<Rightarrow> False | Some b \<Rightarrow> b)
                       then s\<lparr>deviceCache := markPaired d (deviceCache s)\<rparr>
                       else s\<lparr>deviceCache := markUnpaired d (deviceCache s)\<rparr>)
             in (case cfg_vendor cfg of
                   None \<Rightarrow> (Inl NotFoundException, s')
                 | Some vendor \<Rightarrow>
                    (case cfg_product cfg of
                       None \<Rightarrow> (Inl NotFoundException, s')
                     | Some product \<Rightarrow>
                        (Inr \<lparr>vd_id = device_id, vd_refresh = refresh,
                              vd_vendorName = vendor, vd_productName = product,
                              vd_modules = parseModules parseModule (cfg_modules cfg) 0\<rparr>,
                         s')))))"

definition registerDevice ::
  "'mt VirtualDevice \<Rightarrow> 'mt VirtualDeviceManager \<Rightarrow> (exn + unit) \<times> 'mt VirtualDeviceManager"
where
  "registerDevice device s =
     (let (devices, inserted) = emplace (vd_id device) device (m_virtualDevicesMap s)
      in if \<not> inserted then (Inl ExistsException, s)
         else (Inr (), s\<lparr>m_virtualDevicesMap := devices\<rparr>))"

text \<open>
  \<open>installVirtualDevices\<close> over the consecutive \<open>virtual-deviceN\<close> sections that have an
  \<open>enable\<close> key, each with the value of that key: a section that is not enabled is
  skipped, and so is one whose parsing or registration raises.
\<close>

fun installVirtualDevices ::
  "DevicePrefix \<Rightarrow> (string \<Rightarrow> exn + DeviceID) \<Rightarrow> ('mc \<Rightarrow> nat \<Rightarrow> exn + 'mt VirtualModule) \<Rightarrow>
   (bool \<times> 'mc DeviceCfg) list \<Rightarrow> 'mt VirtualDeviceManager \<Rightarrow> 'mt VirtualDeviceManager"
where
  "installVirtualDevices PREFIX_VIRTUAL_DEVICE parse parseModule [] s = s"
| "installVirtualDevices PREFIX_VIRTUAL_DEVICE parse parseModule ((enable, cfg) # rest) s =
     (if \<not> enable then installVirtualDevices PREFIX_VIRTUAL_DEVICE parse parseModule rest s
      else
        case parseDevice PREFIX_VIRTUAL_DEVICE parse parseModule cfg s of
          (Inl e, s') \<Rightarrow> installVirtualDevices PREFIX_VIRTUAL_DEVICE parse parseModule rest s'
        | (Inr device, s') \<Rightarrow>
            installVirtualDevices PREFIX_VIRTUAL_DEVICE parse parseModule rest
              (snd (registerDevice device s')))"

subsection \<open>Commands\<close>

definition doDeviceAcceptCommand ::
  "DeviceID \<Rightarrow> 'mt VirtualDeviceManager \<Rightarrow> (exn + unit) \<times> 'mt VirtualDeviceManager"
where
  "doDeviceAcceptCommand deviceID s =
     (case map_of (m_virtualDevicesMap s) deviceID of
        None \<Rightarrow> (Inl NotFoundException, s)
      | Some device \<Rightarrow>
          (Inr (),
           s\<lparr>deviceCache := markPaired deviceID (deviceCache s),
             m_pollingKeeper := schedule device (m_pollingKeeper s)\<rparr>))"

definition doUnpairCommand ::
  "DeviceID \<Rightarrow> 'mt VirtualDeviceManager \<Rightarrow> (exn + unit) \<times> 'mt VirtualDeviceManager"
where
  "doUnpairCommand deviceID s =
     (case map_of (m_virtualDevicesMap s) deviceID of
        None \<Rightarrow> (Inr (), s)
      | Some device \<Rightarrow>
          (Inr (),
           s\<lparr>deviceCache := markUnpaired deviceID (deviceCache s),
             m_pollingKeeper := cancel deviceID (m_pollingKeeper s)\<rparr>))"

text \<open>
  The loop of \<open>doSetValueCommand\<close> over the modules of the device: it raises at the first
  module with the id of the command whose reaction is \<open>REACTION_NONE\<close>.
\<close>

fun checkReaction :: "'mt VirtualModule list \<Rightarrow> nat \<Rightarrow> exn + unit" where
  "checkReaction [] cmdModuleID = Inr ()"
| "checkReaction (item # items) cmdModuleID =
     (if moduleID item = cmdModuleID \<and> reaction item = REACTION_NONE
      then Inl InvalidAccessException
      else checkReaction items cmdModuleID)"

text \<open>
  \<open>doSetValueCommand\<close>. \<open>modifyValue\<close> stands for \<open>VirtualDevice::modifyValue\<close>, which is
  not among the sources: it returns whether it succeeded and the device as it left it.
  The third component of the result lists the calls of \<open>modifyValue\<close> made, each with the
  id of the device, the module id and the value.
\<close>

definition doSetValueCommand ::
  "('mt VirtualDevice \<Rightarrow> nat \<Rightarrow> 'val \<Rightarrow> bool \<times> 'mt VirtualDevice) \<Rightarrow>
   DeviceID \<Rightarrow> nat \<Rightarrow> 'val \<Rightarrow> 'mt VirtualDeviceManager \<Rightarrow>
   (exn + unit) \<times> 'mt VirtualDeviceManager \<times> (DeviceID \<times> nat \<times> 'val) list"
where
  "doSetValueCommand modifyValue deviceID cmdModuleID val s =
     (case map_of (m_virtualDevicesMap s) deviceID of
        None \<Rightarrow> (Inl NotFoundException, s, [])
      | Some device \<Rightarrow>
         (case checkReaction (vd_modules device) cmdModuleID of
            Inl e \<Rightarrow> (Inl e, s, [])
          | Inr _ \<Rightarrow>
             let (ok, device') = modifyValue device cmdModuleID val;
                 s' = s\<lparr>m_virtualDevicesMap :=
                         modify deviceID (\<lambda>_. device') (m_virtualDevicesMap s)\<rparr>
             in (if \<not> ok then Inl IllegalStateException else Inr (),
                 s', [(vd_id device, cmdModuleID, val)])))"

subsection \<open>Remote status\<close>

fun scheduleAllEntries_loop ::
  "(DeviceID \<times> 'mt VirtualDevice) list \<Rightarrow> DeviceCache \<Rightarrow> PollingKeeper \<Rightarrow> PollingKeeper"
where
  "scheduleAllEntries_loop [] cache keeper = keeper"
| "scheduleAllEntries_loop ((first, second) # rest) cache keeper =
     scheduleAllEntries_loop rest cache
       (if paired first cache then schedule second keeper else cancel first keeper)"

definition scheduleAllEntries :: "'mt VirtualDeviceManager \<Rightarrow> 'mt VirtualDeviceManager" where
  "scheduleAllEntries s =
     s\<lparr>m_pollingKeeper :=
         scheduleAllEntries_loop (m_virtualDevicesMap s) (deviceCache s) (m_pollingKeeper s)\<rparr>"

text \<open>
  \<open>handleRemoteStatus\<close>. \<open>base\<close> stands for \<open>DeviceManager::handleRemoteStatus\<close> of the base
  class, which is not among the sources: it receives the prefix, the paired devices and
  the values, and writes the device cache.
\<close>

definition handleRemoteStatus ::
  "(DevicePrefix \<Rightarrow> DeviceID set \<Rightarrow> 'vals \<Rightarrow> DeviceCache \<Rightarrow> DeviceCache) \<Rightarrow>
   DevicePrefix \<Rightarrow> DeviceID set \<Rightarrow> 'vals \<Rightarrow> 'mt VirtualDeviceManager \<Rightarrow>
   'mt VirtualDeviceManager"
where
  "handleRemoteStatus base pfx devices vals s =
     scheduleAllEntries (s\<lparr>deviceCache := base pfx devices vals (deviceCache s)\<rparr>)"

subsection \<open>An example manager\<close>

text \<open>
  A virtual-device prefix, a parser of device ids that knows two texts, a parser of
  modules whose views are a type name and a reaction, a configuration section whose
  device id carries another prefix, and a manager with two devices of three modules
  each, of which the second device is paired and the first one scheduled.
  \<open>example_modifyValue\<close> succeeds on a module whose reaction is \<open>REACTION_SUCCESS\<close>;
  \<open>example_base\<close> makes the devices of the remote status the paired ones.
\<close>

definition PREFIX_VIRTUAL_DEVICE_example :: DevicePrefix where
  "PREFIX_VIRTUAL_DEVICE_example = 0xa3"

definition example_parse :: "string \<Rightarrow> exn + DeviceID" where
  "example_parse str =
     (if str = ''0xa200000000000007'' then Inr 0xa200000000000007
      else if str = ''0xa300000000000008'' then Inr 0xa300000000000008
      else Inl NotFoundException)"

definition example_parseModule :: "string \<times> Reaction \<Rightarrow> nat \<Rightarrow> exn + string VirtualModule" where
  "example_parseModule view i = Inr \<lparr>moduleID = i, moduleType = fst view, reaction = snd view\<rparr>"

definition example_cfg :: "(string \<times> Reaction) DeviceCfg" where
  "example_cfg =
     \<lparr>cfg_device_id = Some ''0xa200000000000007'', cfg_refresh = None, cfg_paired = Some True,
      cfg_vendor = Some ''BeeeOn'', cfg_product = Some ''Virtual'',
      cfg_modules = [(''temperature'', REACTION_NONE), (''on_off'', REACTION_SUCCESS)]\<rparr>"

definition example_vdev :: "DeviceID \<Rightarrow> string VirtualDevice" where
  "example_vdev d =
     \<lparr>vd_id = d, vd_refresh = 30, vd_vendorName = ''BeeeOn'', vd_productName = ''Virtual'',
      vd_modules =
        [\<lparr>moduleID = 0, moduleType = ''temperature'', reaction = REACTION_NONE\<rparr>,
         \<lparr>moduleID = 1, moduleType = ''on_off'', reaction = REACTION_SUCCESS\<rparr>,
         \<lparr>moduleID = 2, moduleType = ''on_off'', reaction = REACTION_FAILURE\<rparr>]\<rparr>"

definition example_modifyValue ::
  "string VirtualDevice \<Rightarrow> nat \<Rightarrow> int \<Rightarrow> bool \<times> string VirtualDevice" where
  "example_modifyValue device m v =
     (list_ex (\<lambda>item. moduleID item = m \<and> reaction item = REACTION_SUCCESS) (vd_modules device),
      device)"

definition example_manager :: "string VirtualDeviceManager" where
  "example_manager =
     \<lparr>m_virtualDevicesMap =
        [(0xa300000000000001, example_vdev 0xa300000000000001),
         (0xa300000000000002, example_vdev 0xa300000000000002)],
      deviceCache = {0xa300000000000002},
      m_pollingKeeper = {0xa300000000000001}\<rparr>"

definition example_empty :: "string VirtualDeviceManager" where
  "example_empty = \<lparr>m_virtualDevicesMap = [], deviceCache = {}, m_pollingKeeper = {}\<rparr>"

definition example_base :: "DevicePrefix \<Rightarrow> DeviceID set \<Rightarrow> unit \<Rightarrow> DeviceCache \<Rightarrow> DeviceCache" where
  "example_base pfx devices vals cache = devices"

section \<open>Properties of the BLE adapter\<close>

subsection \<open>Auxiliary facts about the maps\<close>

lemma map_of_emplace:
  "map_of (fst (emplace k v xs)) =
     (case map_of xs k of Some _ \<Rightarrow> map_of xs | None \<Rightarrow> (map_of xs)(k \<mapsto> v))"
proof (cases "map_of xs k")
  case (Some a)
  then show ?thesis by (simp add: emplace_def)
next
  case None
  let ?P = "\<lambda>(k', _). k' < k"
  have k: "k \<notin> fst ` set xs" using None by (simp add: map_of_eq_None_iff)
  have "k \<notin> fst ` set (takeWhile ?P xs)"
    using k set_takeWhileD by fastforce
  then have tk: "map_of (takeWhile ?P xs) k = None" by (simp add: map_of_eq_None_iff)
  have "map_of (takeWhile ?P xs @ (k, v) # dropWhile ?P xs) = (map_of xs)(k \<mapsto> v)"
  proof
    fix x
    have "map_of xs = map_of (takeWhile ?P xs @ dropWhile ?P xs)" by simp
    then have e: "map_of xs x = (map_of (dropWhile ?P xs) ++ map_of (takeWhile ?P xs)) x"
      by (metis map_of_append)
    show "map_of (takeWhile ?P xs @ (k, v) # dropWhile ?P xs) x = ((map_of xs)(k \<mapsto> v)) x"
      using tk e by (auto simp: map_add_def split: option.splits)
  qed
  with None show ?thesis by (simp add: emplace_def)
qed


lemma keys_emplace: "fst ` set (fst (emplace k v xs)) = insert k (fst ` set xs)"
proof -
  have "dom (map_of (fst (emplace k v xs))) = insert k (dom (map_of xs))"
    by (auto simp: map_of_emplace split: option.splits)
  then show ?thesis by (simp add: dom_map_of_conv_image_fst)
qed

lemma map_ok_distinct: "map_ok xs \<Longrightarrow> distinct (map fst xs)"
  unfolding map_ok_def by (simp add: strict_sorted_iff)

lemma map_ok_unique: "map_ok xs \<Longrightarrow> (k, v) \<in> set xs \<Longrightarrow> (k, v') \<in> set xs \<Longrightarrow> v = v'"
  using map_ok_distinct by (metis eq_key_imp_eq_value)


lemma map_of_modify:
  "map_of (modify k f xs) = (\<lambda>x. if x = k then map_option f (map_of xs k) else map_of xs x)"
  by (induction xs) (auto simp: fun_eq_iff)

lemma map_ok_emplace:
  assumes "map_ok xs"
  shows "map_ok (fst (emplace k v xs))"
proof (cases "map_of xs k")
  case (Some a)
  then show ?thesis using assms by (simp add: emplace_def)
next
  case None
  then have k: "k \<notin> fst ` set xs" by (simp add: map_of_eq_None_iff)
  have "sorted_wrt (<) (map fst xs) \<Longrightarrow> k \<notin> fst ` set xs \<Longrightarrow>
      sorted_wrt (<) (map fst (takeWhile (\<lambda>(k', _). k' < k) xs @
                              (k, v) # dropWhile (\<lambda>(k', _). k' < k) xs))"
  proof (induction xs)
    case Nil
    then show ?case by simp
  next
    case (Cons a xs)
    obtain k' v' where a: "a = (k', v')" by (cases a)
    show ?case
    proof (cases "k' < k")
      case True
      have "\<forall>y \<in> set (takeWhile (\<lambda>(k', _). k' < k) xs @
                              (k, v) # dropWhile (\<lambda>(k', _). k' < k) xs). k' < fst y"
      proof
        fix y assume "y \<in> set (takeWhile (\<lambda>(k', _). k' < k) xs @
                              (k, v) # dropWhile (\<lambda>(k', _). k' < k) xs)"
        then have "y = (k, v) \<or> y \<in> set xs"
          using set_takeWhileD set_dropWhileD by fastforce
        then show "k' < fst y" using True Cons.prems(1) by (auto simp: a)
      qed
      then show ?thesis using Cons True by (auto simp: a)
    next
      case False
      then have "k < k'" using Cons.prems(2) by (auto simp: a)
      then show ?thesis using Cons.prems False by (auto simp: a)
    qed
  qed
  then show ?thesis using assms k None by (simp add: emplace_def map_ok_def)
qed

lemma keys_modify: "map fst (modify k f xs) = map fst xs"
  by (induction xs) auto

lemma map_ok_modify: "map_ok xs \<Longrightarrow> map_ok (modify k f xs)"
  by (simp add: map_ok_def keys_modify)

lemma map_ok_filter: "map_ok xs \<Longrightarrow> map_ok (filter P xs)"
  unfolding map_ok_def by (induction xs) auto

lemmas ex_defs = example_hci_def example_device_def example_replies_def SECONDS_def DAYS_def
  lescan_def startDiscovery_def initDiscoveryFilter_def throwErrorIfAny_def GERROR_IN_PROGRESS_def
  removeUnvailableDevices_def isWatched_def elapsed_def rssi_def name_def emplace_def
  RSSI_DEVICE_UNAVAILABLE_def map_ok_def macAddress_def createDevicePath_def

subsection \<open>Scan results\<close>

lemma keys_lescan_loop:
  "fst ` set (lescan_loop now maxAge devs found) =
     fst ` set found \<union>
     {k. \<exists>d. (k, d) \<in> set devs \<and> elapsed now (m_lastSeen d) \<le> maxAge \<and> rssi d \<noteq> 0}"
proof (induction devs arbitrary: found)
  case Nil
  then show ?case by simp
next
  case (Cons a devs)
  obtain k d where a: "a = (k, d)" by (cases a)
  let ?V = "\<lambda>devs. {k. \<exists>d. (k, d) \<in> set devs \<and> elapsed now (m_lastSeen d) \<le> maxAge \<and> rssi d \<noteq> 0}"
  show ?case
  proof (cases "elapsed now (m_lastSeen d) \<le> maxAge \<and> rssi d \<noteq> 0")
    case True
    then have "lescan_loop now maxAge (a # devs) found =
        lescan_loop now maxAge devs (fst (emplace k (name d) found))"
      by (simp add: a RSSI_DEVICE_UNAVAILABLE_def)
    moreover have "?V (a # devs) = insert k (?V devs)"
      using True unfolding a by auto
    ultimately show ?thesis by (simp add: Cons.IH keys_emplace)
  next
    case False
    then have "lescan_loop now maxAge (a # devs) found = lescan_loop now maxAge devs found"
      by (auto simp add: a RSSI_DEVICE_UNAVAILABLE_def)
    moreover have "?V (a # devs) = ?V devs"
      using False unfolding a by auto
    ultimately show ?thesis by (simp add: Cons.IH)
  qed
qed


lemma lescan_Inr:
  "lescan toString replies scanTime evictTime s = Inr (foundDevices, s', calls) \<Longrightarrow>
     foundDevices = lescan_loop scanTime (m_leMaxAgeRssi s) (m_devices s) [] \<and>
     (s', calls) = removeUnvailableDevices toString evictTime s"
  unfolding lescan_def by (cases "startDiscovery replies") (simp_all add: Let_def split: prod.splits)

lemma onDeviceRSSIChanged_lastSeen:
  "map_of devices (prop_address device) = Some d \<Longrightarrow> ''RSSI'' \<in> set properties \<Longrightarrow>
     map_of (onDeviceRSSIChanged device properties now devices) (prop_address device) =
       Some (d\<lparr>m_lastSeen := now\<rparr>)"
  by (simp add: onDeviceRSSIChanged_def map_of_modify updateLastSeen_def)

text \<open>
  C1. For every record of the device map, the result of \<open>lescan\<close> contains the MAC of the
  record exactly when its last RSSI update (\<open>m_lastSeen\<close>, which \<open>onDeviceRSSIChanged\<close>
  sets) is no older than \<open>m_leMaxAgeRssi\<close> and its RSSI is not 0. A record that fails
  either condition is absent from the result.
\<close>

theorem lescan_visibility:
  assumes "map_ok (m_devices s)"
    and "lescan toString replies scanTime evictTime s = Inr (foundDevices, s', calls)"
    and "(mac, d) \<in> set (m_devices s)"
  shows "mac \<in> fst ` set foundDevices \<longleftrightarrow>
           elapsed scanTime (m_lastSeen d) \<le> m_leMaxAgeRssi s \<and> rssi d \<noteq> 0"
proof -
  have f: "foundDevices = lescan_loop scanTime (m_leMaxAgeRssi s) (m_devices s) []"
    using lescan_Inr [OF assms(2)] by simp
  have u: "\<And>d'. (mac, d') \<in> set (m_devices s) \<Longrightarrow> d' = d"
    using map_ok_unique [OF assms(1) assms(3)] by simp
  have "mac \<in> fst ` set foundDevices \<longleftrightarrow>
     (\<exists>d'. (mac, d') \<in> set (m_devices s) \<and>
        elapsed scanTime (m_lastSeen d') \<le> m_leMaxAgeRssi s \<and> rssi d' \<noteq> 0)"
    unfolding f keys_lescan_loop by simp
  then show ?thesis using u assms(3) by blast
qed

theorem lescan_visibility_witness:
  "map_ok (m_devices example_hci) \<and>
   lescan hexString example_replies (40 * SECONDS) (40 * SECONDS) example_hci =
     Inr ([(0xAABBCCDDEE01, ''unknown'')], example_hci, []) \<and>
   (0xAABBCCDDEE01, example_device 0xAABBCCDDEE01 0xFFC4 11 None (29 * SECONDS))
      \<in> set (m_devices example_hci) \<and>
   (0xAABBCCDDEE02, example_device 0xAABBCCDDEE02 0xFFC4 12 (Some (7, 1)) 0)
      \<in> set (m_devices example_hci) \<and>
   0xAABBCCDDEE01 \<in> fst ` set [(0xAABBCCDDEE01 :: MACAddress, ''unknown'')] \<and>
   elapsed (40 * SECONDS) (29 * SECONDS) \<le> m_leMaxAgeRssi example_hci \<and>
   0xAABBCCDDEE02 \<notin> fst ` set [(0xAABBCCDDEE01 :: MACAddress, ''unknown'')] \<and>
   \<not> elapsed (40 * SECONDS) 0 \<le> m_leMaxAgeRssi example_hci"
proof -
  have h1: "map_ok (m_devices example_hci)"
    by (simp add: example_hci_def map_ok_def)
  have h2: "lescan hexString example_replies (40 * SECONDS) (40 * SECONDS) example_hci =
      Inr ([(0xAABBCCDDEE01, ''unknown'')], example_hci, [])"
    by (simp add: ex_defs)
  have h3: "(0xAABBCCDDEE01, example_device 0xAABBCCDDEE01 0xFFC4 11 None (29 * SECONDS))
      \<in> set (m_devices example_hci)"
    by (simp add: example_hci_def)
  have h4: "(0xAABBCCDDEE02, example_device 0xAABBCCDDEE02 0xFFC4 12 (Some (7, 1)) 0)
      \<in> set (m_devices example_hci)"
    by (simp add: example_hci_def)
  show ?thesis
    using h1 h2 h3 h4 lescan_visibility [OF h1 h2 h3] lescan_visibility [OF h1 h2 h4]
    by (simp add: example_device_def rssi_def)
qed

subsection \<open>Eviction\<close>

lemma removeLoop_kept:
  "fst (removeUnvailableDevices_loop toString nm now mx devs) =
     filter (\<lambda>(k, d). isWatched d \<or> elapsed now (m_lastSeen d) \<le> mx) devs"
  by (induction devs) (auto simp: Let_def case_prod_beta)

lemma removeLoop_calls:
  "(k, d) \<in> set devs \<Longrightarrow> \<not> isWatched d \<Longrightarrow> elapsed now (m_lastSeen d) > mx \<Longrightarrow>
     RemoveDeviceSync (createDevicePath toString nm (macAddress d))
       \<in> set (snd (removeUnvailableDevices_loop toString nm now mx devs))"
  by (induction devs) (auto simp: Let_def case_prod_beta)

lemma removeUnvailableDevices_eq:
  "removeUnvailableDevices toString now s = (s', calls) \<Longrightarrow>
     m_devices s' = fst (removeUnvailableDevices_loop toString (m_name s) now
                          (m_leMaxUnavailabilityTime s) (m_devices s)) \<and>
     calls = snd (removeUnvailableDevices_loop toString (m_name s) now
                          (m_leMaxUnavailabilityTime s) (m_devices s))"
  unfolding removeUnvailableDevices_def by (auto simp: Let_def case_prod_beta)

lemma map_ok_removeUnvailableDevices:
  "map_ok (m_devices s) \<Longrightarrow> map_ok (m_devices (fst (removeUnvailableDevices toString now s)))"
  by (simp add: removeUnvailableDevices_def case_prod_beta removeLoop_kept map_ok_filter)

text \<open>
  C3. After the eviction pass at the end of \<open>lescan\<close>, the device map holds no unwatched
  record whose \<open>m_lastSeen\<close> is older than \<open>m_leMaxUnavailabilityTime\<close>; for every record
  that was erased, the removal of the D-Bus object at its device path was requested;
  and a watched record is kept, however old.
\<close>

theorem lescan_eviction:
  assumes "lescan toString replies scanTime evictTime s = Inr (foundDevices, s', calls)"
  shows "(\<forall>(k, d) \<in> set (m_devices s').
            \<not> isWatched d \<longrightarrow> elapsed evictTime (m_lastSeen d) \<le> m_leMaxUnavailabilityTime s) \<and>
         (\<forall>(k, d) \<in> set (m_devices s).
            (k, d) \<notin> set (m_devices s') \<longrightarrow>
              RemoveDeviceSync (createDevicePath toString (m_name s) (macAddress d)) \<in> set calls) \<and>
         (\<forall>(k, d) \<in> set (m_devices s). isWatched d \<longrightarrow> (k, d) \<in> set (m_devices s'))"
proof -
  have r: "removeUnvailableDevices toString evictTime s = (s', calls)"
    using lescan_Inr [OF assms] by simp
  note e = removeUnvailableDevices_eq [OF r]
  have d: "m_devices s' =
      filter (\<lambda>(k, d). isWatched d \<or> elapsed evictTime (m_lastSeen d) \<le> m_leMaxUnavailabilityTime s)
        (m_devices s)"
    using e by (simp add: removeLoop_kept)
  have 1: "\<forall>(k, d) \<in> set (m_devices s').
            \<not> isWatched d \<longrightarrow> elapsed evictTime (m_lastSeen d) \<le> m_leMaxUnavailabilityTime s"
    unfolding d by auto
  have 2: "\<forall>(k, d) \<in> set (m_devices s).
            (k, d) \<notin> set (m_devices s') \<longrightarrow>
              RemoveDeviceSync (createDevicePath toString (m_name s) (macAddress d)) \<in> set calls"
  proof (clarify)
    fix k d assume m: "(k, d) \<in> set (m_devices s)" and n: "(k, d) \<notin> set (m_devices s')"
    from m n have "\<not> isWatched d" "elapsed evictTime (m_lastSeen d) > m_leMaxUnavailabilityTime s"
      unfolding d by auto
    then show "RemoveDeviceSync (createDevicePath toString (m_name s) (macAddress d)) \<in> set calls"
      using removeLoop_calls [OF m] e by simp
  qed
  have 3: "\<forall>(k, d) \<in> set (m_devices s). isWatched d \<longrightarrow> (k, d) \<in> set (m_devices s')"
    unfolding d by auto
  from 1 2 3 show ?thesis by blast
qed

theorem lescan_eviction_witness:
  "lescan hexString example_replies (40 * SECONDS) (7 * DAYS + 30 * SECONDS) example_hci =
     Inr ([(0xAABBCCDDEE01, ''unknown'')],
          example_hci\<lparr>m_devices :=
            [(0xAABBCCDDEE02, example_device 0xAABBCCDDEE02 0xFFC4 12 (Some (7, 1)) 0),
             (0xAABBCCDDEE03, example_device 0xAABBCCDDEE03 0 13 None (35 * SECONDS))]\<rparr>,
          [SignalHandlerDisconnect
             (m_device (example_device 0xAABBCCDDEE01 0xFFC4 11 None (29 * SECONDS))) 11,
           RemoveDeviceSync ''/org/bluez/hci0/dev_AA_BB_CC_DD_EE_01'']) \<and>
   RemoveDeviceSync (createDevicePath hexString ''hci0'' 0xAABBCCDDEE01)
     \<in> set [SignalHandlerDisconnect
              (m_device (example_device 0xAABBCCDDEE01 0xFFC4 11 None (29 * SECONDS))) 11,
            RemoveDeviceSync ''/org/bluez/hci0/dev_AA_BB_CC_DD_EE_01''] \<and>
   elapsed (7 * DAYS + 30 * SECONDS) (35 * SECONDS) \<le> m_leMaxUnavailabilityTime example_hci"
proof -
  have h: "lescan hexString example_replies (40 * SECONDS) (7 * DAYS + 30 * SECONDS) example_hci =
     Inr ([(0xAABBCCDDEE01, ''unknown'')],
          example_hci\<lparr>m_devices :=
            [(0xAABBCCDDEE02, example_device 0xAABBCCDDEE02 0xFFC4 12 (Some (7, 1)) 0),
             (0xAABBCCDDEE03, example_device 0xAABBCCDDEE03 0 13 None (35 * SECONDS))]\<rparr>,
          [SignalHandlerDisconnect
             (m_device (example_device 0xAABBCCDDEE01 0xFFC4 11 None (29 * SECONDS))) 11,
           RemoveDeviceSync ''/org/bluez/hci0/dev_AA_BB_CC_DD_EE_01''])"
    by (simp add: ex_defs hexString_def hexByte_def hexDigit_def)
  show ?thesis
    using h lescan_eviction [OF h]
    by (simp add: example_hci_def example_device_def isWatched_def macAddress_def)
qed

subsection \<open>Classic detection\<close>

lemma detect_timeout:
  "m_classicArtificialAvaibilityTimeout (snd (detect status now a s)) =
     m_classicArtificialAvaibilityTimeout s"
  by (simp add: detect_def split: option.splits)

lemma detect_all_timeout:
  "m_classicArtificialAvaibilityTimeout (detect_all calls s) =
     m_classicArtificialAvaibilityTimeout s"
  by (induction calls arbitrary: s) (auto simp: detect_timeout)

lemma detect_seen:
  "m_seenClassicDevices (snd (detect status now a s)) =
     (if status then (m_seenClassicDevices s)(a \<mapsto> now) else m_seenClassicDevices s)"
  by (simp add: detect_def split: option.splits)

lemma detect_all_seen:
  "m_seenClassicDevices (detect_all calls s) mac =
     last_detected calls mac (m_seenClassicDevices s mac)"
proof (induction calls arbitrary: s)
  case Nil
  then show ?case by simp
next
  case (Cons c calls)
  obtain now a status where c: "c = (now, a, status)" by (cases c)
  show ?case unfolding c by (simp add: Cons.IH detect_seen)
qed

lemma detect_result:
  "fst (detect status now a s) \<longleftrightarrow>
     status \<or> (\<exists>e. m_seenClassicDevices s a = Some e \<and>
                  elapsed now e \<le> m_classicArtificialAvaibilityTimeout s)"
  by (simp add: detect_def split: option.splits)

lemma last_detected_ge:
  "\<forall>c \<in> set calls. t \<le> fst c \<Longrightarrow> t \<le> e \<Longrightarrow>
     \<exists>e'. last_detected calls mac (Some e) = Some e' \<and> t \<le> e'"
proof (induction calls arbitrary: e)
  case Nil
  then show ?case by simp
next
  case (Cons c calls)
  obtain now a status where c: "c = (now, a, status)" by (cases c)
  from Cons.prems have "t \<le> now" "\<forall>c \<in> set calls. t \<le> fst c" by (simp_all add: c)
  then show ?case unfolding c using Cons.IH Cons.prems(2) by simp
qed

text \<open>
  C2, as the source has it. After a \<open>detect(mac)\<close> call whose inquiry found the device at
  time \<open>t\<close>, and any calls after it that read the clock at \<open>t\<close> or later, a \<open>detect(mac)\<close>
  call at a time up to \<open>t\<close> plus \<open>m_classicArtificialAvaibilityTimeout\<close> returns true
  whatever its inquiry reports. Starting from an adapter that has seen no classic device,
  once more than the timeout has elapsed since the last call whose inquiry found the
  device, or when no inquiry ever found it, \<open>detect\<close> returns the result of its inquiry.
\<close>

theorem detect_smoothing:
  "((\<forall>c \<in> set calls. t \<le> fst c) \<and> now \<le> t + m_classicArtificialAvaibilityTimeout s \<longrightarrow>
      fst (detect status now mac (detect_all calls (snd (detect True t mac s))))) \<and>
   (m_seenClassicDevices s = Map.empty \<longrightarrow>
      (\<forall>e. last_detected calls mac None = Some e \<and>
           m_classicArtificialAvaibilityTimeout s < elapsed now e \<longrightarrow>
           fst (detect status now mac (detect_all calls s)) = status) \<and>
      (last_detected calls mac None = None \<longrightarrow>
           fst (detect status now mac (detect_all calls s)) = status))"
proof (intro conjI impI allI)
  assume a: "(\<forall>c \<in> set calls. t \<le> fst c) \<and> now \<le> t + m_classicArtificialAvaibilityTimeout s"
  let ?s1 = "snd (detect True t mac s)"
  have "m_seenClassicDevices ?s1 mac = Some t" by (simp add: detect_seen)
  then have "m_seenClassicDevices (detect_all calls ?s1) mac = last_detected calls mac (Some t)"
    by (simp add: detect_all_seen)
  moreover obtain e' where "last_detected calls mac (Some t) = Some e'" "t \<le> e'"
    using last_detected_ge [of calls t t mac] a by auto
  ultimately have "m_seenClassicDevices (detect_all calls ?s1) mac = Some e'"
    and "elapsed now e' \<le> m_classicArtificialAvaibilityTimeout (detect_all calls ?s1)"
    using a by (simp_all add: elapsed_def detect_all_timeout detect_timeout)
  then show "fst (detect status now mac (detect_all calls ?s1))"
    unfolding detect_result by blast
next
  fix e
  assume m: "m_seenClassicDevices s = Map.empty"
    and l: "last_detected calls mac None = Some e \<and>
            m_classicArtificialAvaibilityTimeout s < elapsed now e"
  have "m_seenClassicDevices (detect_all calls s) mac = Some e"
    using m l by (simp add: detect_all_seen)
  then show "fst (detect status now mac (detect_all calls s)) = status"
    unfolding detect_result using l by (auto simp: detect_all_timeout)
next
  assume m: "m_seenClassicDevices s = Map.empty"
    and l: "last_detected calls mac None = None"
  have "m_seenClassicDevices (detect_all calls s) mac = None"
    using m l by (simp add: detect_all_seen)
  then show "fst (detect status now mac (detect_all calls s)) = status"
    unfolding detect_result by simp
qed

theorem detect_smoothing_witness:
  "fst (detect False (25 * SECONDS) 0xAABBCCDDEE01
         (detect_all [(20 * SECONDS, 0xAABBCCDDEE01, False)]
            (snd (detect True 0 0xAABBCCDDEE01 example_hci)))) \<and>
   fst (detect False (45 * SECONDS) 0xAABBCCDDEE01
         (detect_all [(0, 0xAABBCCDDEE01, True), (20 * SECONDS, 0xAABBCCDDEE01, False)]
            example_hci)) = False \<and>
   fst (detect True (45 * SECONDS) 0xAABBCCDDEE01
         (detect_all [(0, 0xAABBCCDDEE02, True)] example_hci)) = True"
  using detect_smoothing [of "[(20 * SECONDS, 0xAABBCCDDEE01, False)]" 0 "25 * SECONDS"
      example_hci False "0xAABBCCDDEE01"]
    detect_smoothing [of "[(0, 0xAABBCCDDEE01, True), (20 * SECONDS, 0xAABBCCDDEE01, False)]" 0
      "45 * SECONDS" example_hci False "0xAABBCCDDEE01"]
    detect_smoothing [of "[(0, 0xAABBCCDDEE02, True)]" 0
      "45 * SECONDS" example_hci True "0xAABBCCDDEE01"]
  by (simp add: example_hci_def SECONDS_def elapsed_def)


text \<open>
  C2, as stated, speaks of a call that returned true at time \<open>t\<close>. A call can return true
  without an inquiry that found the device: found at second 0, the device is reported
  at second 20 although the inquiry misses it, and the call at second 45, within 30
  seconds of that report, returns false.
\<close>

theorem detect_window_counterexample:
  "fst (detect False (20 * SECONDS) 0xAABBCCDDEE01 (snd (detect True 0 0xAABBCCDDEE01 example_hci))) \<and>
   20 * SECONDS \<le> 45 * SECONDS \<and>
   45 * SECONDS \<le> 20 * SECONDS + m_classicArtificialAvaibilityTimeout example_hci \<and>
   \<not> fst (detect False (45 * SECONDS) 0xAABBCCDDEE01
            (snd (detect False (20 * SECONDS) 0xAABBCCDDEE01
               (snd (detect True 0 0xAABBCCDDEE01 example_hci)))))"
  by (simp add: detect_def example_hci_def SECONDS_def elapsed_def)

subsection \<open>Connecting\<close>

text \<open>
  C7. \<open>connect(mac, timeout)\<close>: a MAC that is not in the device map fails with
  \<open>NotFoundException\<close>; an error reported by the backend connect call fails with
  \<open>IOException\<close>, except that error code 36 (in progress) counts as success and the
  handle is returned.
\<close>

theorem connect_errors:
  "(map_of (m_devices s) address = None \<longrightarrow>
      connect reply address timeout s = Inl NotFoundException) \<and>
   (\<forall>d e. map_of (m_devices s) address = Some d \<and> \<not> prop_connected (m_device d) \<and>
      reply = Some e \<longrightarrow>
        (code e \<noteq> 36 \<longrightarrow> connect reply address timeout s = Inl IOException) \<and>
        (code e = 36 \<longrightarrow>
           connect reply address timeout s =
             Inr \<lparr>conn_name = m_name s, conn_device = m_device d, conn_timeout = timeout\<rparr>))"
  by (simp add: connect_def throwErrorIfAny_def GERROR_IN_PROGRESS_def Let_def)

theorem connect_errors_witness:
  "connect None 0xAABBCCDDEE09 (5 * SECONDS) example_hci = Inl NotFoundException \<and>
   connect (Some \<lparr>code = 2, message = ''failed''\<rparr>) 0xAABBCCDDEE01 (5 * SECONDS) example_hci =
     Inl IOException \<and>
   connect (Some \<lparr>code = 36, message = ''in progress''\<rparr>) 0xAABBCCDDEE01 (5 * SECONDS)
       example_hci =
     Inr \<lparr>conn_name = ''hci0'',
          conn_device = m_device (example_device 0xAABBCCDDEE01 0xFFC4 11 None (29 * SECONDS)),
          conn_timeout = 5 * SECONDS\<rparr>"
  using connect_errors [of example_hci "0xAABBCCDDEE09" None "5 * SECONDS"]
    connect_errors [of example_hci "0xAABBCCDDEE01" "Some \<lparr>code = 2, message = ''failed''\<rparr>"
      "5 * SECONDS"]
    connect_errors [of example_hci "0xAABBCCDDEE01"
      "Some \<lparr>code = 36, message = ''in progress''\<rparr>" "5 * SECONDS"]
  by (simp add: example_hci_def example_device_def)

subsection \<open>Watching\<close>

text \<open>
  C8. \<open>watch(mac, callback)\<close> on a record that is already watched returns without an
  error and leaves the adapter, and with it the handle and the callback of the record's
  subscription, as it was.
\<close>

theorem watch_watched_noop:
  assumes "map_of (m_devices s) address = Some d" and "isWatched d"
  shows "watch handle address callBack s = (Inr (), s)"
  using assms by (simp add: watch_def)

theorem watch_watched_noop_witness:
  "map_of (m_devices example_hci) 0xAABBCCDDEE02 =
     Some (example_device 0xAABBCCDDEE02 0xFFC4 12 (Some (7, 1)) 0) \<and>
   isWatched (example_device 0xAABBCCDDEE02 0xFFC4 12 (Some (7, 1)) 0) \<and>
   watch 8 0xAABBCCDDEE02 2 example_hci = (Inr (), example_hci)"
proof -
  have h1: "map_of (m_devices example_hci) 0xAABBCCDDEE02 =
     Some (example_device 0xAABBCCDDEE02 0xFFC4 12 (Some (7, 1)) 0)"
    by (simp add: example_hci_def)
  have h2: "isWatched (example_device 0xAABBCCDDEE02 0xFFC4 12 (Some (7, 1)) 0)"
    by (simp add: isWatched_def example_device_def)
  show ?thesis using h1 h2 watch_watched_noop [OF h1 h2, of 8 2] by simp
qed

text \<open>
  C10. \<open>unwatch(mac)\<close> on a MAC that is unknown to the adapter, or whose record is not
  watched, returns without a call to the bus and leaves the adapter unchanged. On a
  watched record it disconnects the handler of the subscription and clears the
  subscription of that record; the records at every other address stay as they were.
\<close>

theorem unwatch_frame:
  "((map_of (m_devices s) address = None \<or>
     (\<exists>d. map_of (m_devices s) address = Some d \<and> \<not> isWatched d)) \<longrightarrow>
      unwatch address s = (s, [])) \<and>
   (\<forall>d. map_of (m_devices s) address = Some d \<and> isWatched d \<longrightarrow>
      snd (unwatch address s) = [SignalHandlerDisconnect (m_device d) (watchHandle d)] \<and>
      map_of (m_devices (fst (unwatch address s))) address = Some (unwatchDevice d) \<and>
      \<not> isWatched (unwatchDevice d) \<and>
      (\<forall>a. a \<noteq> address \<longrightarrow>
         map_of (m_devices (fst (unwatch address s))) a = map_of (m_devices s) a))"
  by (auto simp: unwatch_def Let_def map_of_modify isWatched_def unwatchDevice_def)


theorem unwatch_frame_witness:
  "unwatch 0xAABBCCDDEE09 example_hci = (example_hci, []) \<and>
   unwatch 0xAABBCCDDEE01 example_hci = (example_hci, []) \<and>
   snd (unwatch 0xAABBCCDDEE02 example_hci) =
     [SignalHandlerDisconnect
        (m_device (example_device 0xAABBCCDDEE02 0xFFC4 12 (Some (7, 1)) 0)) 7] \<and>
   map_of (m_devices (fst (unwatch 0xAABBCCDDEE02 example_hci))) 0xAABBCCDDEE02 =
     Some (example_device 0xAABBCCDDEE02 0xFFC4 12 None 0)"
  using unwatch_frame [of example_hci "0xAABBCCDDEE09"]
    unwatch_frame [of example_hci "0xAABBCCDDEE01"]
    unwatch_frame [of example_hci "0xAABBCCDDEE02"]
  by (simp add: example_hci_def example_device_def isWatched_def watchHandle_def unwatchDevice_def)

section \<open>Properties of the virtual device manager\<close>

subsection \<open>Setting a value\<close>

lemma checkReaction_iff:
  "checkReaction items m =
     (if \<exists>item \<in> set items. moduleID item = m \<and> reaction item = REACTION_NONE
      then Inl InvalidAccessException else Inr ())"
  by (induction items) auto

text \<open>
  C4. \<open>DeviceSetValueCommand\<close>: a device id that is not in the map raises
  \<open>NotFoundException\<close>. For a device in the map, when a module with the id of the command
  exists whose reaction is \<open>REACTION_NONE\<close>, the command is rejected with
  \<open>InvalidAccessException\<close> and \<open>modifyValue\<close> is not called; otherwise \<open>modifyValue\<close> is
  called once, with the module id and the value of the command, and the command raises
  \<open>IllegalStateException\<close> exactly when that call fails.
\<close>

theorem doSetValueCommand_outcome:
  "(map_of (m_virtualDevicesMap s) deviceID = None \<longrightarrow>
      doSetValueCommand modifyValue deviceID m v s = (Inl NotFoundException, s, [])) \<and>
   (\<forall>device. map_of (m_virtualDevicesMap s) deviceID = Some device \<longrightarrow>
      ((\<exists>item \<in> set (vd_modules device). moduleID item = m \<and> reaction item = REACTION_NONE) \<longrightarrow>
         doSetValueCommand modifyValue deviceID m v s = (Inl InvalidAccessException, s, [])) \<and>
      (\<not> (\<exists>item \<in> set (vd_modules device). moduleID item = m \<and> reaction item = REACTION_NONE) \<longrightarrow>
         snd (snd (doSetValueCommand modifyValue deviceID m v s)) = [(vd_id device, m, v)] \<and>
         fst (doSetValueCommand modifyValue deviceID m v s) =
           (if fst (modifyValue device m v) then Inr () else Inl IllegalStateException)))"
  by (auto simp: doSetValueCommand_def checkReaction_iff Let_def case_prod_beta)

theorem doSetValueCommand_outcome_witness:
  "doSetValueCommand example_modifyValue 0xa300000000000009 1 42 example_manager =
     (Inl NotFoundException, example_manager, []) \<and>
   doSetValueCommand example_modifyValue 0xa300000000000001 0 42 example_manager =
     (Inl InvalidAccessException, example_manager, []) \<and>
   snd (snd (doSetValueCommand example_modifyValue 0xa300000000000001 1 42 example_manager)) =
     [(0xa300000000000001, 1, 42)] \<and>
   fst (doSetValueCommand example_modifyValue 0xa300000000000001 1 42 example_manager) = Inr () \<and>
   snd (snd (doSetValueCommand example_modifyValue 0xa300000000000001 2 42 example_manager)) =
     [(0xa300000000000001, 2, 42)] \<and>
   fst (doSetValueCommand example_modifyValue 0xa300000000000001 2 42 example_manager) =
     Inl IllegalStateException"
  using doSetValueCommand_outcome [of example_manager "0xa300000000000009" example_modifyValue 1 42]
    doSetValueCommand_outcome [of example_manager "0xa300000000000001" example_modifyValue 0 42]
    doSetValueCommand_outcome [of example_manager "0xa300000000000001" example_modifyValue 1 42]
    doSetValueCommand_outcome [of example_manager "0xa300000000000001" example_modifyValue 2 42]
  by (simp add: example_manager_def example_vdev_def example_modifyValue_def)

subsection \<open>Accepting and unpairing\<close>

lemma keyed_by_id_map_of:
  "keyed_by_id devs \<Longrightarrow> map_of devs k = Some device \<Longrightarrow> vd_id device = k"
  unfolding keyed_by_id_def by (induction devs) (auto split: if_splits)

text \<open>
  C5. \<open>DeviceAcceptCommand\<close> with an id unknown to the map raises \<open>NotFoundException\<close> and
  changes nothing; with a known id it marks the device paired in the cache and schedules
  it, and accepting again gives the same result and the same state without an error.
  \<open>DeviceUnpairCommand\<close> with a known id marks the device unpaired and cancels its polling;
  with an unknown id it raises nothing and changes nothing.
\<close>

theorem accept_unpair:
  "(map_of (m_virtualDevicesMap s) deviceID = None \<longrightarrow>
      doDeviceAcceptCommand deviceID s = (Inl NotFoundException, s) \<and>
      doUnpairCommand deviceID s = (Inr (), s)) \<and>
   (\<forall>device. keyed_by_id (m_virtualDevicesMap s) \<and>
        map_of (m_virtualDevicesMap s) deviceID = Some device \<longrightarrow>
      fst (doDeviceAcceptCommand deviceID s) = Inr () \<and>
      paired deviceID (deviceCache (snd (doDeviceAcceptCommand deviceID s))) \<and>
      deviceID \<in> m_pollingKeeper (snd (doDeviceAcceptCommand deviceID s)) \<and>
      doDeviceAcceptCommand deviceID (snd (doDeviceAcceptCommand deviceID s)) =
        doDeviceAcceptCommand deviceID s \<and>
      fst (doUnpairCommand deviceID s) = Inr () \<and>
      \<not> paired deviceID (deviceCache (snd (doUnpairCommand deviceID s))) \<and>
      deviceID \<notin> m_pollingKeeper (snd (doUnpairCommand deviceID s)))"
proof (intro conjI impI allI)
  fix device
  assume a: "keyed_by_id (m_virtualDevicesMap s) \<and>
        map_of (m_virtualDevicesMap s) deviceID = Some device"
  then have i: "vd_id device = deviceID" using keyed_by_id_map_of by blast
  show "fst (doDeviceAcceptCommand deviceID s) = Inr ()"
    using a by (simp add: doDeviceAcceptCommand_def)
  show "paired deviceID (deviceCache (snd (doDeviceAcceptCommand deviceID s)))"
    using a by (simp add: doDeviceAcceptCommand_def paired_def markPaired_def)
  show "deviceID \<in> m_pollingKeeper (snd (doDeviceAcceptCommand deviceID s))"
    using a i by (simp add: doDeviceAcceptCommand_def schedule_def)
  show "doDeviceAcceptCommand deviceID (snd (doDeviceAcceptCommand deviceID s)) =
        doDeviceAcceptCommand deviceID s"
    using a by (simp add: doDeviceAcceptCommand_def schedule_def markPaired_def)
  show "fst (doUnpairCommand deviceID s) = Inr ()"
    using a by (simp add: doUnpairCommand_def)
  show "\<not> paired deviceID (deviceCache (snd (doUnpairCommand deviceID s)))"
    using a by (simp add: doUnpairCommand_def paired_def markUnpaired_def)
  show "deviceID \<notin> m_pollingKeeper (snd (doUnpairCommand deviceID s))"
    using a by (simp add: doUnpairCommand_def cancel_def)
qed (simp_all add: doDeviceAcceptCommand_def doUnpairCommand_def)

theorem accept_unpair_witness:
  "doDeviceAcceptCommand 0xa300000000000009 example_manager =
     (Inl NotFoundException, example_manager) \<and>
   doUnpairCommand 0xa300000000000009 example_manager = (Inr (), example_manager) \<and>
   keyed_by_id (m_virtualDevicesMap example_manager) \<and>
   map_of (m_virtualDevicesMap example_manager) 0xa300000000000002 =
     Some (example_vdev 0xa300000000000002) \<and>
   fst (doDeviceAcceptCommand 0xa300000000000002 example_manager) = Inr () \<and>
   paired 0xa300000000000002
     (deviceCache (snd (doDeviceAcceptCommand 0xa300000000000002 example_manager))) \<and>
   0xa300000000000002
     \<in> m_pollingKeeper (snd (doDeviceAcceptCommand 0xa300000000000002 example_manager)) \<and>
   0xa300000000000002
     \<notin> m_pollingKeeper (snd (doUnpairCommand 0xa300000000000002 example_manager))"
proof -
  have h1: "map_of (m_virtualDevicesMap example_manager) 0xa300000000000009 = None"
    by (simp add: example_manager_def)
  have h2: "keyed_by_id (m_virtualDevicesMap example_manager)"
    by (simp add: example_manager_def example_vdev_def keyed_by_id_def)
  have h3: "map_of (m_virtualDevicesMap example_manager) 0xa300000000000002 =
     Some (example_vdev 0xa300000000000002)"
    by (simp add: example_manager_def)
  show ?thesis
    using h1 h2 h3 accept_unpair [of example_manager "0xa300000000000009"]
      accept_unpair [of example_manager "0xa300000000000002"]
    by simp
qed

subsection \<open>Remote status\<close>

lemma scheduleAllEntries_loop_mem:
  "keyed_by_id devs \<Longrightarrow>
     x \<in> scheduleAllEntries_loop devs cache keeper \<longleftrightarrow>
       (if x \<in> fst ` set devs then x \<in> cache else x \<in> keeper)"
proof (induction devs arbitrary: keeper)
  case Nil
  then show ?case by simp
next
  case (Cons a devs)
  obtain k d where a: "a = (k, d)" by (cases a)
  from Cons.prems have kd: "vd_id d = k" and r: "keyed_by_id devs"
    by (simp_all add: keyed_by_id_def a)
  show ?case unfolding a
    by (simp add: Cons.IH [OF r] kd paired_def schedule_def cancel_def)
qed

text \<open>
  C6. After \<open>handleRemoteStatus\<close>, every device of the map is scheduled for polling
  exactly when the cache has it paired.
\<close>

theorem handleRemoteStatus_coherence:
  assumes "keyed_by_id (m_virtualDevicesMap s)"
    and "(k, device) \<in> set (m_virtualDevicesMap (handleRemoteStatus base pfx devices vals s))"
  shows "k \<in> m_pollingKeeper (handleRemoteStatus base pfx devices vals s) \<longleftrightarrow>
         paired k (deviceCache (handleRemoteStatus base pfx devices vals s))"
proof -
  have m: "(k, device) \<in> set (m_virtualDevicesMap s)"
    using assms(2) by (simp add: handleRemoteStatus_def scheduleAllEntries_def)
  then have "k \<in> fst ` set (m_virtualDevicesMap s)" by force
  then show ?thesis
    using scheduleAllEntries_loop_mem [OF assms(1)]
    by (simp add: handleRemoteStatus_def scheduleAllEntries_def paired_def)
qed


theorem handleRemoteStatus_coherence_witness:
  "keyed_by_id (m_virtualDevicesMap example_manager) \<and>
   (0xa300000000000001, example_vdev 0xa300000000000001)
     \<in> set (m_virtualDevicesMap
              (handleRemoteStatus example_base 0xa3 {0xa300000000000001} () example_manager)) \<and>
   (0xa300000000000002, example_vdev 0xa300000000000002)
     \<in> set (m_virtualDevicesMap
              (handleRemoteStatus example_base 0xa3 {0xa300000000000001} () example_manager)) \<and>
   deviceCache (handleRemoteStatus example_base 0xa3 {0xa300000000000001} () example_manager) =
     {0xa300000000000001} \<and>
   0xa300000000000001
     \<in> m_pollingKeeper
          (handleRemoteStatus example_base 0xa3 {0xa300000000000001} () example_manager) \<and>
   0xa300000000000002
     \<notin> m_pollingKeeper
          (handleRemoteStatus example_base 0xa3 {0xa300000000000001} () example_manager)"
proof -
  let ?s = "handleRemoteStatus example_base 0xa3 {0xa300000000000001} () example_manager"
  have h1: "keyed_by_id (m_virtualDevicesMap example_manager)"
    by (simp add: example_manager_def example_vdev_def keyed_by_id_def)
  have m: "m_virtualDevicesMap ?s = m_virtualDevicesMap example_manager"
    by (simp add: handleRemoteStatus_def scheduleAllEntries_def)
  have h2: "(0xa300000000000001, example_vdev 0xa300000000000001) \<in> set (m_virtualDevicesMap ?s)"
    unfolding m by (simp add: example_manager_def)
  have h3: "(0xa300000000000002, example_vdev 0xa300000000000002) \<in> set (m_virtualDevicesMap ?s)"
    unfolding m by (simp add: example_manager_def)
  have c: "deviceCache ?s = {0xa300000000000001}"
    by (simp add: handleRemoteStatus_def scheduleAllEntries_def example_base_def)
  show ?thesis
    using h1 h2 h3 c handleRemoteStatus_coherence [OF h1 h2] handleRemoteStatus_coherence [OF h1 h3]
    by (simp add: paired_def)
qed

subsection \<open>Loading a device with another prefix\<close>

lemma prefix_make: "DeviceID_prefix (DeviceID_make p i) = p"
  unfolding DeviceID_prefix_def DeviceID_make_def
  by (rule bit_word_eqI) (auto simp: bit_simps)

lemma ident_make: "DeviceID_ident (DeviceID_make p i) = DeviceID_ident i"
  unfolding DeviceID_ident_def DeviceID_make_def
  by (rule bit_word_eqI) (auto simp: bit_simps)

lemma ident_ident: "DeviceID_ident (DeviceID_ident d) = DeviceID_ident d"
  by (simp add: DeviceID_ident_def)

lemma keyed_by_id_registerDevice:
  assumes "keyed_by_id (m_virtualDevicesMap s)"
  shows "keyed_by_id (m_virtualDevicesMap (snd (registerDevice device s)))"
proof -
  let ?P = "\<lambda>(k', _). k' < vd_id device"
  let ?xs = "m_virtualDevicesMap s"
  have a: "\<forall>x \<in> set ?xs. case x of (k, dev) \<Rightarrow> vd_id dev = k"
    using assms by (simp add: keyed_by_id_def list_all_iff)
  have "\<forall>x \<in> set (takeWhile ?P ?xs). case x of (k, dev) \<Rightarrow> vd_id dev = k"
    using a set_takeWhileD by fast
  moreover have "\<forall>x \<in> set (dropWhile ?P ?xs). case x of (k, dev) \<Rightarrow> vd_id dev = k"
    using a set_dropWhileD by fast
  ultimately show ?thesis
    using assms
    by (auto simp: registerDevice_def emplace_def keyed_by_id_def list_all_iff
        split: option.splits)
qed

lemma registerDevice_new:
  assumes "map_of (m_virtualDevicesMap s) (vd_id device) = None"
  shows "fst (registerDevice device s) = Inr ()"
    and "map_of (m_virtualDevicesMap (snd (registerDevice device s))) (vd_id device) = Some device"
    and "deviceCache (snd (registerDevice device s)) = deviceCache s"
proof -
  have e: "snd (emplace (vd_id device) device (m_virtualDevicesMap s))"
    using assms by (simp add: emplace_def)
  have r: "registerDevice device s =
      (Inr (), s\<lparr>m_virtualDevicesMap := fst (emplace (vd_id device) device (m_virtualDevicesMap s))\<rparr>)"
    using e by (simp add: registerDevice_def case_prod_beta)
  show "fst (registerDevice device s) = Inr ()" by (simp add: r)
  show "map_of (m_virtualDevicesMap (snd (registerDevice device s))) (vd_id device) = Some device"
    using assms by (simp add: r map_of_emplace)
  show "deviceCache (snd (registerDevice device s)) = deviceCache s" by (simp add: r)
qed

lemma map_ok_registerDevice:
  "map_ok (m_virtualDevicesMap s) \<Longrightarrow> map_ok (m_virtualDevicesMap (snd (registerDevice device s)))"
  using map_ok_emplace [of "m_virtualDevicesMap s" "vd_id device" device]
  by (auto simp: registerDevice_def case_prod_beta)

text \<open>
  C9. A configuration section whose device id carries a prefix other than the virtual
  one: the device is registered under the corrected id (the virtual prefix and the same
  7-byte identifier), while the paired or unpaired mark is written to the cache under
  the id as configured. The two ids differ, and the pairing flag of the registered id is
  left as it was.
\<close>

theorem parseDevice_wrong_prefix:
  assumes "cfg_device_id cfg = Some str" and "parse str = Inr d"
    and "DeviceID_prefix d \<noteq> PREFIX_VIRTUAL_DEVICE"
    and "cfg_vendor cfg = Some vendor" and "cfg_product cfg = Some product"
    and "map_of (m_virtualDevicesMap s)
           (DeviceID_make PREFIX_VIRTUAL_DEVICE (DeviceID_ident d)) = None"
  shows "(\<exists>device.
           fst (parseDevice PREFIX_VIRTUAL_DEVICE parse parseModule cfg s) = Inr device \<and>
           vd_id device = DeviceID_make PREFIX_VIRTUAL_DEVICE (DeviceID_ident d) \<and>
           map_of (m_virtualDevicesMap
                     (installVirtualDevices PREFIX_VIRTUAL_DEVICE parse parseModule [(True, cfg)] s))
             (DeviceID_make PREFIX_VIRTUAL_DEVICE (DeviceID_ident d)) = Some device) \<and>
         DeviceID_prefix (DeviceID_make PREFIX_VIRTUAL_DEVICE (DeviceID_ident d)) =
           PREFIX_VIRTUAL_DEVICE \<and>
         DeviceID_ident (DeviceID_make PREFIX_VIRTUAL_DEVICE (DeviceID_ident d)) =
           DeviceID_ident d \<and>
         deviceCache
           (installVirtualDevices PREFIX_VIRTUAL_DEVICE parse parseModule [(True, cfg)] s) =
         (if cfg_paired cfg = Some True then markPaired d (deviceCache s)
          else markUnpaired d (deviceCache s)) \<and>
         DeviceID_make PREFIX_VIRTUAL_DEVICE (DeviceID_ident d) \<noteq> d \<and>
         paired (DeviceID_make PREFIX_VIRTUAL_DEVICE (DeviceID_ident d))
           (deviceCache
              (installVirtualDevices PREFIX_VIRTUAL_DEVICE parse parseModule [(True, cfg)] s)) =
         paired (DeviceID_make PREFIX_VIRTUAL_DEVICE (DeviceID_ident d)) (deviceCache s)"
proof -
  let ?key = "DeviceID_make PREFIX_VIRTUAL_DEVICE (DeviceID_ident d)"
  let ?cache = "if cfg_paired cfg = Some True then markPaired d (deviceCache s)
                else markUnpaired d (deviceCache s)"
  let ?device = "\<lparr>vd_id = ?key,
      vd_refresh = (case cfg_refresh cfg of None \<Rightarrow> DEFAULT_REFRESH_SECS | Some r \<Rightarrow> r),
      vd_vendorName = vendor, vd_productName = product,
      vd_modules = parseModules parseModule (cfg_modules cfg) 0\<rparr>"
  let ?s' = "s\<lparr>deviceCache := ?cache\<rparr>"
  let ?s'' = "installVirtualDevices PREFIX_VIRTUAL_DEVICE parse parseModule [(True, cfg)] s"
  have p: "parseDevice PREFIX_VIRTUAL_DEVICE parse parseModule cfg s = (Inr ?device, ?s')"
    using assms(1-5) by (cases "cfg_paired cfg") (auto simp: parseDevice_def Let_def)
  have i: "?s'' = snd (registerDevice ?device ?s')"
    by (simp add: p)
  have n: "map_of (m_virtualDevicesMap ?s') (vd_id ?device) = None"
    using assms(6) by simp
  note r = registerDevice_new [OF n]
  have 1: "\<exists>device.
           fst (parseDevice PREFIX_VIRTUAL_DEVICE parse parseModule cfg s) = Inr device \<and>
           vd_id device = ?key \<and> map_of (m_virtualDevicesMap ?s'') ?key = Some device"
    using r(2) unfolding i p by (intro exI [of _ ?device]) simp
  have 2: "DeviceID_prefix ?key = PREFIX_VIRTUAL_DEVICE" by (rule prefix_make)
  have 3: "DeviceID_ident ?key = DeviceID_ident d" by (simp add: ident_make ident_ident)
  have 4: "deviceCache ?s'' = ?cache"
    unfolding i using r(3) by simp
  have 5: "?key \<noteq> d" using 2 assms(3) by auto
  have 6: "paired ?key (deviceCache ?s'') = paired ?key (deviceCache s)"
    unfolding 4 using 5 by (simp add: paired_def markPaired_def markUnpaired_def)
  from 1 2 3 4 5 6 show ?thesis by blast
qed

theorem parseDevice_wrong_prefix_witness:
  "cfg_device_id example_cfg = Some ''0xa200000000000007'' \<and>
   example_parse ''0xa200000000000007'' = Inr 0xa200000000000007 \<and>
   DeviceID_prefix 0xa200000000000007 \<noteq> PREFIX_VIRTUAL_DEVICE_example \<and>
   DeviceID_make PREFIX_VIRTUAL_DEVICE_example (DeviceID_ident 0xa200000000000007) =
     0xa300000000000007 \<and>
   deviceCache (installVirtualDevices PREFIX_VIRTUAL_DEVICE_example example_parse
                  example_parseModule [(True, example_cfg)] example_empty) =
     {0xa200000000000007} \<and>
   (\<exists>device. map_of (m_virtualDevicesMap
                 (installVirtualDevices PREFIX_VIRTUAL_DEVICE_example example_parse
                    example_parseModule [(True, example_cfg)] example_empty))
               0xa300000000000007 = Some device) \<and>
   \<not> paired 0xa300000000000007
       (deviceCache (installVirtualDevices PREFIX_VIRTUAL_DEVICE_example example_parse
                  example_parseModule [(True, example_cfg)] example_empty))"
proof -
  have h1: "cfg_device_id example_cfg = Some ''0xa200000000000007''"
    by (simp add: example_cfg_def)
  have h2: "example_parse ''0xa200000000000007'' = Inr 0xa200000000000007"
    by (simp add: example_parse_def)
  have h3: "DeviceID_prefix 0xa200000000000007 \<noteq> PREFIX_VIRTUAL_DEVICE_example"
    by (simp add: DeviceID_prefix_def PREFIX_VIRTUAL_DEVICE_example_def)
  have h4: "cfg_vendor example_cfg = Some ''BeeeOn''" by (simp add: example_cfg_def)
  have h5: "cfg_product example_cfg = Some ''Virtual''" by (simp add: example_cfg_def)
  have k: "DeviceID_make PREFIX_VIRTUAL_DEVICE_example (DeviceID_ident 0xa200000000000007) =
     0xa300000000000007"
    by (simp add: DeviceID_make_def DeviceID_ident_def PREFIX_VIRTUAL_DEVICE_example_def)
  have h6: "map_of (m_virtualDevicesMap example_empty)
      (DeviceID_make PREFIX_VIRTUAL_DEVICE_example (DeviceID_ident 0xa200000000000007)) = None"
    by (simp add: example_empty_def)
  have c: "cfg_paired example_cfg = Some True" by (simp add: example_cfg_def)
  show ?thesis
    using h1 h2 h3 k
      parseDevice_wrong_prefix [where parse = example_parse and parseModule = example_parseModule
        and cfg = example_cfg and s = example_empty, OF h1 h2 h3 h4 h5 h6]
    by (auto simp: c k markPaired_def paired_def example_empty_def)
qed


end
